theory Spec2Isabelle
  imports Main
begin

section \<open>Scripting values\<close>

text \<open>
  The values XSLTProcessor.js inspects with \<open>typeof\<close>. Numbers and E4X XML objects are
  kept abstract (type parameters \<open>'n\<close> and \<open>'x\<close>): their string forms are computed by the
  scripting host, not by this program. A function value is named by an identifier. An
  array is the list of its elements (a hole reads as \<open>undefined\<close>); an object is the
  list of its own enumerable properties in the host's enumeration order, each name
  once. The properties \<open>constructor\<close>, \<open>length\<close> and \<open>hasOwnProperty\<close> the program reads
  from an object are looked up in this list, and are the built-in ones when the list
  does not have them.
\<close>

datatype ('n, 'x) jsval =
    JUndefined
  | JNull
  | JBool bool
  | JNum 'n
  | JStr string
  | JFunc nat
  | JArr "('n, 'x) jsval list"
  | JObj "(string \<times> ('n, 'x) jsval) list"
  | JXML 'x

section \<open>The transformer and its surroundings\<close>

text \<open>
  The state of the \<open>javax.xml.transform.Transformer\<close> one processor instance owns, as far
  as this program reads and writes it: the stylesheet text it was built from, the
  parameter table (a DOM document or a string under each name), the output-property
  table, and the \<open>callback\<close> property of the URI resolver installed by the constructor
  (\<open>None\<close> when the property is not there).
\<close>

datatype 'd parameter = DocumentParameter 'd | StringParameter string

record 'd transformer =
  stylesheet :: string
  parameters :: "string \<rightharpoonup> 'd parameter"
  outputProperties :: "string \<rightharpoonup> string"
  callback :: "nat option"

text \<open>
  The failures of the program. The first seven are its \<open>throw\<close> statements, each of a
  string, which the constructor carries. \<open>TypeError\<close> is the host's exception for a call
  of a value that is not a function; \<open>DoesNotReturn\<close> stands for a loop that does not
  end.
\<close>

datatype error =
    StylesheetNotFound string
  | StylesheetInvalid string
  | InputNotFound string
  | TransformFailed string
  | ParameterSetFailed string
  | ParameterGetFailed string
  | OutputPropertySetFailed string
  | TypeError
  | DoesNotReturn

text \<open>
  What the program takes from its surroundings.
  \<^item> The scripting host: the string forms of numbers, functions and XML objects; which
    numbers count as false; \<open>lengthRounds x\<close>, the number of rounds of
    \<open>for (c = 0; c < x; c++)\<close> for a value \<open>x\<close> other than \<open>undefined\<close>; the identifier of
    the built-in \<open>Array\<close> function; the E4X \<open>XML\<close> constructor; the shell's \<open>readFile\<close>;
    the result of calling a scripting function with a list of arguments.
  \<^item> The Java side: \<open>DocumentBuilder.parse\<close>; the identity transformer \<open>getParameter\<close>
    serializes with, under the output properties it is given; the transformer factory
    on a stylesheet text; the stylesheet's own output properties; the transformer's
    check of a parameter name, made when a parameter is set and when it is looked up;
    its check of an output property; and \<open>Transformer.transform\<close> on an input text.
  \<open>None\<close> and \<open>False\<close> stand for a raised exception. \<open>'d\<close> is the type of DOM documents.
\<close>

record ('n, 'x, 'd) host =
  numToString :: "'n \<Rightarrow> string"
  numIsFalsy :: "'n \<Rightarrow> bool"
  lengthRounds :: "('n, 'x) jsval \<Rightarrow> error + nat"
  funToString :: "nat \<Rightarrow> string"
  arrayConstructor :: nat
  toXMLString :: "'x \<Rightarrow> string"
  xmlToString :: "'x \<Rightarrow> string"
  newXML :: "string \<Rightarrow> 'x option"
  readFile :: "string \<Rightarrow> string option"
  callFunction :: "nat \<Rightarrow> ('n, 'x) jsval list \<Rightarrow> ('n, 'x) jsval"
  parse :: "string \<Rightarrow> 'd option"
  serialize :: "(string \<rightharpoonup> string) \<Rightarrow> 'd \<Rightarrow> string option"
  newTransformer :: "string \<Rightarrow> bool"
  sheetOutputProperties :: "string \<Rightarrow> (string \<rightharpoonup> string)"
  acceptsParameter :: "string \<Rightarrow> bool"
  acceptsOutputProperty :: "string \<Rightarrow> string \<Rightarrow> bool"
  transformerTransform :: "'d transformer \<Rightarrow> string \<Rightarrow> string option"

text \<open>
  What the resolver hands back to the engine: a \<open>StreamSource\<close> built from a system
  identifier, a \<open>StreamSource\<close> over a \<open>StringReader\<close> of a text, or the answer of the
  engine's own resolver for \<open>(href, base)\<close>.
\<close>

datatype source =
    SystemIdSource string
  | ReaderSource string
  | StandardSource string string

section \<open>Type classifier\<close>

fun typeof :: "('n, 'x) jsval \<Rightarrow> string" where
  "typeof JUndefined = ''undefined''"
| "typeof JNull = ''object''"
| "typeof (JBool b) = ''boolean''"
| "typeof (JNum n) = ''number''"
| "typeof (JStr s) = ''string''"
| "typeof (JFunc f) = ''function''"
| "typeof (JArr xs) = ''object''"
| "typeof (JObj kvs) = ''object''"
| "typeof (JXML x) = ''xml''"

definition isUndefined :: "('n, 'x) jsval \<Rightarrow> bool" where
  "isUndefined v = (typeof v = ''undefined'')"

definition isNull :: "('n, 'x) jsval \<Rightarrow> bool" where
  "isNull v = (v = JNull)"

definition isString :: "('n, 'x) jsval \<Rightarrow> bool" where
  "isString v = (typeof v = ''string'')"

definition isFunction :: "('n, 'x) jsval \<Rightarrow> bool" where
  "isFunction v = (typeof v = ''function'')"

definition isObject :: "('n, 'x) jsval \<Rightarrow> bool" where
  "isObject v = (\<not> isNull v \<and> typeof v = ''object'')"

text \<open>
  \<open>value.constructor === Array\<close>: an array inherits the property from its prototype;
  an object has it when its own \<open>constructor\<close> property is the \<open>Array\<close> function.
\<close>

fun constructorIsArray :: "('n, 'x, 'd) host \<Rightarrow> ('n, 'x) jsval \<Rightarrow> bool" where
  "constructorIsArray h (JArr xs) = True"
| "constructorIsArray h (JObj kvs) =
     (map_of kvs ''constructor'' = Some (JFunc (arrayConstructor h)))"
| "constructorIsArray h v = False"

definition isArray :: "('n, 'x, 'd) host \<Rightarrow> ('n, 'x) jsval \<Rightarrow> bool" where
  "isArray h v = (isObject v \<and> constructorIsArray h v)"

definition isXML :: "('n, 'x) jsval \<Rightarrow> bool" where
  "isXML v = (typeof v = ''xml'')"

section \<open>The host's coercions\<close>

text \<open>The decimal form of an array index, as \<open>'' + c\<close> gives it.\<close>

definition digit :: "nat \<Rightarrow> char" where
  "digit d = ''0123456789'' ! d"

fun indexToString :: "nat \<Rightarrow> string" where
  "indexToString c =
     (if c < 10 then [digit c] else indexToString (c div 10) @ [digit (c mod 10)])"

declare indexToString.simps [simp del]

text \<open>\<open>ToBoolean\<close>: what \<open>value || ''\<close> tests.\<close>

fun truthy :: "('n, 'x, 'd) host \<Rightarrow> ('n, 'x) jsval \<Rightarrow> bool" where
  "truthy h JUndefined = False"
| "truthy h JNull = False"
| "truthy h (JBool b) = b"
| "truthy h (JNum n) = (\<not> numIsFalsy h n)"
| "truthy h (JStr s) = (s \<noteq> [])"
| "truthy h v = True"

fun joinComma :: "string list \<Rightarrow> string" where
  "joinComma [] = []"
| "joinComma [s] = s"
| "joinComma (s # t # ss) = s @ '','' @ joinComma (t # ss)"

text \<open>
  \<open>String(value)\<close>, and the conversion \<open>+\<close> applies to a value joined to a string. An
  array is joined with commas, \<open>undefined\<close> and \<open>null\<close> elements giving nothing.
\<close>

fun ToString :: "('n, 'x, 'd) host \<Rightarrow> ('n, 'x) jsval \<Rightarrow> string" where
  "ToString h JUndefined = ''undefined''"
| "ToString h JNull = ''null''"
| "ToString h (JBool b) = (if b then ''true'' else ''false'')"
| "ToString h (JNum n) = numToString h n"
| "ToString h (JStr s) = s"
| "ToString h (JFunc f) = funToString h f"
| "ToString h (JArr xs) =
     joinComma (map (\<lambda>v. if v = JUndefined \<or> v = JNull then [] else ToString h v) xs)"
| "ToString h (JObj kvs) = ''[object Object]''"
| "ToString h (JXML x) = xmlToString h x"

text \<open>\<open>value || ''\<close>\<close>

definition orEmpty :: "('n, 'x, 'd) host \<Rightarrow> ('n, 'x) jsval \<Rightarrow> ('n, 'x) jsval" where
  "orEmpty h v = (if truthy h v then v else JStr [])"

section \<open>value2xml\<close>

text \<open>
  The loop over an array, from index \<open>c\<close> on. It is given, for each element in turn,
  what the recursive call on that element does (an exception, or the text it
  returns), and stops at the first exception.
\<close>

fun value2xml_items :: "nat \<Rightarrow> (error + string) list \<Rightarrow> error + string" where
  "value2xml_items c [] = Inr []"
| "value2xml_items c (e # es) =
     (case e of
        Inl err \<Rightarrow> Inl err
      | Inr content \<Rightarrow>
          (case value2xml_items (Suc c) es of
             Inl err \<Rightarrow> Inl err
           | Inr rest \<Rightarrow>
               Inr (''<item index='' @ [CHR 0x22] @ indexToString c @ [CHR 0x22] @ ''>''
                      @ content @ ''</item>'' @ rest)))"

text \<open>
  \<open>value.hasOwnProperty(key)\<close> for a key the loop enumerates, given the object's own
  \<open>hasOwnProperty\<close> property if it has one: the built-in method answers true; a function
  stored under that name is called with the key; any other value stored there is not
  callable.
\<close>

fun hasOwnProperty ::
  "('n, 'x, 'd) host \<Rightarrow> ('n, 'x) jsval option \<Rightarrow> string \<Rightarrow> error + bool" where
  "hasOwnProperty h None key = Inr True"
| "hasOwnProperty h (Some (JFunc f)) key = Inr (truthy h (callFunction h f [JStr key]))"
| "hasOwnProperty h (Some v) key = Inl TypeError"

text \<open>
  The loop over the properties of an object, given the object's own \<open>hasOwnProperty\<close>
  property and, for each property in turn, its name and what the recursive call on
  its value does.
\<close>

fun value2xml_keys ::
  "('n, 'x, 'd) host \<Rightarrow> ('n, 'x) jsval option \<Rightarrow> (string \<times> (error + string)) list
     \<Rightarrow> error + string" where
  "value2xml_keys h own [] = Inr []"
| "value2xml_keys h own ((key, e) # kes) =
     (case hasOwnProperty h own key of
        Inl err \<Rightarrow> Inl err
      | Inr False \<Rightarrow> value2xml_keys h own kes
      | Inr True \<Rightarrow>
          (case e of
             Inl err \<Rightarrow> Inl err
           | Inr content \<Rightarrow>
               (case value2xml_keys h own kes of
                  Inl err \<Rightarrow> Inl err
                | Inr rest \<Rightarrow>
                    Inr (''<'' @ key @ ''>'' @ content @ ''</'' @ key @ ''>'' @ rest))))"

text \<open>
  The decimal numeral a string of digits denotes; \<open>maxIndex\<close> bounds the indexes that
  name a property of an object.
\<close>

definition digitValue :: "char \<Rightarrow> nat" where
  "digitValue ch = of_char ch - 48"

definition decimalValue :: "string \<Rightarrow> nat" where
  "decimalValue s = foldl (\<lambda>a ch. 10 * a + digitValue ch) 0 s"

definition maxIndex :: "(string \<times> 'a) list \<Rightarrow> nat" where
  "maxIndex kvs = fold max (map (\<lambda>(key, x). decimalValue key) kvs) 0"

text \<open>
  The rounds of \<open>for (var c = 0; c < value.length; c++)\<close> on an object: none when the
  object has no \<open>length\<close>, since no index is below \<open>undefined\<close>.
\<close>

definition loopRounds ::
  "('n, 'x, 'd) host \<Rightarrow> (string \<times> ('n, 'x) jsval) list \<Rightarrow> error + nat" where
  "loopRounds h kvs =
     (case map_of kvs ''length'' of
        None \<Rightarrow> Inr 0
      | Some JUndefined \<Rightarrow> Inr 0
      | Some len \<Rightarrow> lengthRounds h len)"

text \<open>
  \<open>value2xml_callee\<close> is the anonymous function \<open>value2xml\<close> applies to an object and
  that calls itself through \<open>arguments.callee\<close>. On an array it loops over the elements.
  On an object that passes \<open>isArray\<close> it loops over the indexes below \<open>value.length\<close> and
  reads \<open>value[c]\<close>, the property named by the index, \<open>undefined\<close> when there is none;
  when that loop has no last round it ends only by an exception, which can come from
  the properties that exist, all of index at most \<open>maxIndex\<close>. On any other object it
  loops over the properties.
\<close>

fun value2xml_callee :: "('n, 'x, 'd) host \<Rightarrow> ('n, 'x) jsval \<Rightarrow> error + string" where
  "value2xml_callee h (JArr xs) = value2xml_items 0 (map (value2xml_callee h) xs)"
| "value2xml_callee h (JObj kvs) =
     (let encoded = map (\<lambda>(key, x). (key, value2xml_callee h x)) kvs;
          element = (\<lambda>c. case map_of encoded (indexToString c) of
                            Some e \<Rightarrow> e
                          | None \<Rightarrow> Inr (ToString h (orEmpty h JUndefined)))
      in if constructorIsArray h (JObj kvs) then
           (case loopRounds h kvs of
              Inr n \<Rightarrow> value2xml_items 0 (map element [0..<n])
            | Inl err \<Rightarrow>
                if err = DoesNotReturn then
                  (case value2xml_items 0 (map element [0..<Suc (maxIndex kvs)]) of
                     Inl err' \<Rightarrow> Inl err'
                   | Inr rest \<Rightarrow> Inl DoesNotReturn)
                else Inl err)
         else value2xml_keys h (map_of kvs ''hasOwnProperty'') encoded)"
| "value2xml_callee h v = Inr (ToString h (orEmpty h v))"

definition value2xml :: "('n, 'x, 'd) host \<Rightarrow> ('n, 'x) jsval \<Rightarrow> error + string" where
  "value2xml h v =
     (case (if isObject v then value2xml_callee h v else Inr (ToString h (orEmpty h v))) of
        Inl err \<Rightarrow> Inl err
      | Inr content \<Rightarrow> Inr (''<root>'' @ content @ ''</root>''))"

section \<open>The processor\<close>

text \<open>The comma operator: both operands are evaluated, the value is the second.\<close>

definition comma :: "'a \<Rightarrow> 'b \<Rightarrow> 'b" where
  "comma a b = b"

text \<open>The constructor: the stylesheet text, then the transformer.\<close>

definition XSLTProcessor ::
  "('n, 'x, 'd) host \<Rightarrow> ('n, 'x) jsval \<Rightarrow> error + 'd transformer" where
  "XSLTProcessor h xsltStyleSheet =
     (case
        (case xsltStyleSheet of
           JXML x \<Rightarrow> Inr (toXMLString h x)
         | _ \<Rightarrow>
            (let path = ToString h (orEmpty h xsltStyleSheet)
             in case readFile h path of
                  None \<Rightarrow> Inl (StylesheetNotFound (''File not found:'' @ path))
                | Some text \<Rightarrow> Inr text))
      of
        Inl e \<Rightarrow> Inl e
      | Inr xsltStyleSheetStr \<Rightarrow>
          if newTransformer h xsltStyleSheetStr
          then Inr \<lparr> stylesheet = xsltStyleSheetStr,
                     parameters = Map.empty,
                     outputProperties = sheetOutputProperties h xsltStyleSheetStr,
                     callback = None \<rparr>
          else Inl (StylesheetInvalid
                 (''Problem with XSLT stylesheet:'' @ xsltStyleSheetStr)))"

text \<open>
  The \<open>resolve\<close> method of the resolver the constructor installs. An exception of
  \<open>value2xml\<close> is not caught here.
\<close>

definition resolve ::
  "('n, 'x, 'd) host \<Rightarrow> 'd transformer \<Rightarrow> string \<Rightarrow> string \<Rightarrow> error + source" where
  "resolve h t href base =
     (case callback t of
        Some f \<Rightarrow>
          (let source = callFunction h f [JStr href, JStr base]
           in case source of
                JStr s \<Rightarrow> Inr (SystemIdSource s)
              | JXML x \<Rightarrow> Inr (ReaderSource (toXMLString h x))
              | _ \<Rightarrow>
                 (case value2xml h source of
                    Inl err \<Rightarrow> Inl err
                  | Inr text \<Rightarrow> Inr (ReaderSource text)))
      | None \<Rightarrow> Inr (StandardSource href base))"

definition setUriResolver :: "'d transformer \<Rightarrow> ('n, 'x) jsval \<Rightarrow> 'd transformer" where
  "setUriResolver t cb =
     (if isNull cb then t\<lparr>callback := None\<rparr>
      else if isFunction cb then (case cb of JFunc f \<Rightarrow> t\<lparr>callback := Some f\<rparr> | _ \<Rightarrow> t)
      else t)"

definition getUriResolver :: "'d transformer \<Rightarrow> ('n, 'x) jsval" where
  "getUriResolver t = (case callback t of Some f \<Rightarrow> JFunc f | None \<Rightarrow> JNull)"


text \<open>The output properties \<open>getParameter\<close> gives its serializer.\<close>

definition serializerProperties :: "string \<rightharpoonup> string" where
  "serializerProperties = [''omit-xml-declaration'' \<mapsto> ''yes'']"



definition setOutputProperty ::
  "('n, 'x, 'd) host \<Rightarrow> 'd transformer \<Rightarrow> ('n, 'x) jsval \<Rightarrow> ('n, 'x) jsval
     \<Rightarrow> error + 'd transformer" where
  "setOutputProperty h t name v =
     (case name of
        JStr n \<Rightarrow>
          (let v' = ToString h (orEmpty h (JStr (ToString h v)))
           in if acceptsOutputProperty h n v'
              then Inr (t\<lparr>outputProperties := (outputProperties t)(n \<mapsto> v')\<rparr>)
              else Inl (OutputPropertySetFailed
                     (''Could not set output property:'' @ n @ '' to '' @ v')))
      | _ \<Rightarrow> Inr t)"

definition getOutputProperty :: "'d transformer \<Rightarrow> string \<Rightarrow> ('n, 'x) jsval" where
  "getOutputProperty t n =
     (case outputProperties t n of Some v \<Rightarrow> JStr v | None \<Rightarrow> JUndefined)"

text \<open>
  \<open>transform\<close>: the input text, then the engine. A call without an argument binds
  \<open>xmlDocument\<close> to \<open>undefined\<close>. \<open>value2xml\<close> is called outside \<open>try\<close>.
\<close>

definition transform ::
  "('n, 'x, 'd) host \<Rightarrow> 'd transformer \<Rightarrow> ('n, 'x) jsval \<Rightarrow> error + string" where
  "transform h t xmlDocument =
     (case
        (case xmlDocument of
           JXML x \<Rightarrow> Inr (toXMLString h x)
         | JStr path \<Rightarrow>
            (case readFile h path of
               None \<Rightarrow> Inl (InputNotFound (''File does not exist:'' @ path))
             | Some text \<Rightarrow> Inr text)
         | _ \<Rightarrow> value2xml h xmlDocument)
      of
        Inl e \<Rightarrow> Inl e
      | Inr xmlDocumentStr \<Rightarrow>
          (case transformerTransform h t xmlDocumentStr of
             None \<Rightarrow> Inl (TransformFailed (comma ''Problem with XML document:'' xmlDocumentStr))
           | Some result \<Rightarrow> Inr result))"

section \<open>Notions used to state the properties\<close>



text \<open>The primitive values: undefined, null, textual, numeric, boolean.\<close>

definition isPrimitive :: "('n, 'x) jsval \<Rightarrow> bool" where
  "isPrimitive v =
     (isUndefined v \<or> isNull v \<or> isString v \<or> typeof v = ''number'' \<or> typeof v = ''boolean'')"

text \<open>
  What the specification says the encoder emits for a primitive value: its string
  form, with undefined, null and the empty string giving the empty string.
\<close>

definition specPrimitiveForm :: "('n, 'x, 'd) host \<Rightarrow> ('n, 'x) jsval \<Rightarrow> string" where
  "specPrimitiveForm h v =
     (if v = JUndefined \<or> v = JNull \<or> v = JStr [] then [] else ToString h v)"


text \<open>
  The resolver as the specification words it, with the dispatch of the input of
  \<open>transform\<close>: a string is a file path whose contents are read and wrapped as a source
  (no source when the file cannot be read), a markup value is serialized, any other
  value goes through the encoder.
\<close>

definition specResolve ::
  "('n, 'x, 'd) host \<Rightarrow> 'd transformer \<Rightarrow> string \<Rightarrow> string \<Rightarrow> source option" where
  "specResolve h t href base =
     (case callback t of
        Some f \<Rightarrow>
          (case callFunction h f [JStr href, JStr base] of
             JStr path \<Rightarrow> map_option ReaderSource (readFile h path)
           | JXML x \<Rightarrow> Some (ReaderSource (toXMLString h x))
           | v \<Rightarrow> (case value2xml h v of Inl err \<Rightarrow> None | Inr text \<Rightarrow> Some (ReaderSource text)))
      | None \<Rightarrow> Some (StandardSource href base))"





section \<open>An example host\<close>

text \<open>
  A small host to run the program on. Numbers are integers. An XML object and a DOM
  document are their own text; the serializer writes an XML declaration unless told
  to leave it out, and the \<open>XML\<close> constructor does not take a text that starts with
  one. Three files exist. The engine accepts every text but the empty one and
  \<open><a>\<close>, and a parameter name unless it is empty or opens a brace it does not close.
\<close>

definition intToString :: "int \<Rightarrow> string" where
  "intToString i = (if i < 0 then ''-'' @ indexToString (nat (- i)) else indexToString (nat i))"

definition exampleFiles :: "string \<Rightarrow> string option" where
  "exampleFiles path =
     (if path = ''input.xml'' then Some ''<a/>''
      else if path = ''broken.xml'' then Some ''<a>''
      else if path = ''empty.xml'' then Some []
      else None)"

definition exampleWellFormed :: "string \<Rightarrow> bool" where
  "exampleWellFormed text = (text \<noteq> [] \<and> text \<noteq> ''<a>'')"

definition exampleParameterName :: "string \<Rightarrow> bool" where
  "exampleParameterName n =
     (case n of
        [] \<Rightarrow> False
      | ch # rest \<Rightarrow> if ch = CHR ''{'' then CHR ''}'' \<in> set rest else True)"

definition exampleSerialize :: "(string \<rightharpoonup> string) \<Rightarrow> string \<Rightarrow> string option" where
  "exampleSerialize properties d =
     Some (if properties ''omit-xml-declaration'' = Some ''yes'' then d
           else ''<?xml version='' @ [CHR 0x22] @ ''1.0'' @ [CHR 0x22] @ ''?>'' @ d)"

definition exampleCall ::
  "nat \<Rightarrow> (int, string) jsval list \<Rightarrow> (int, string) jsval" where
  "exampleCall f arguments =
     (let first = (case arguments of [] \<Rightarrow> JUndefined | a # rest \<Rightarrow> a)
      in if f = 0 then first
         else if f = 1 then JXML ''<a/>''
         else JObj [(''href'', first)])"

definition exampleLengthRounds :: "(int, string) jsval \<Rightarrow> error + nat" where
  "exampleLengthRounds len =
     (case len of
        JNum n \<Rightarrow> Inr (nat n)
      | JBool b \<Rightarrow> Inr (if b then 1 else 0)
      | _ \<Rightarrow> Inr 0)"

definition exampleHost :: "(int, string, string) host" where
  "exampleHost =
     \<lparr> numToString = intToString,
       numIsFalsy = (\<lambda>n. n = 0),
       lengthRounds = exampleLengthRounds,
       funToString = (\<lambda>f. ''function () {}''),
       arrayConstructor = 100,
       toXMLString = (\<lambda>x. x),
       xmlToString = (\<lambda>x. x),
       newXML = (\<lambda>text. if exampleWellFormed text \<and> take 5 text \<noteq> ''<?xml''
                          then Some text else None),
       readFile = exampleFiles,
       callFunction = exampleCall,
       parse = (\<lambda>text. if exampleWellFormed text then Some text else None),
       serialize = exampleSerialize,
       newTransformer = exampleWellFormed,
       sheetOutputProperties = (\<lambda>text. Map.empty),
       acceptsParameter = exampleParameterName,
       acceptsOutputProperty = (\<lambda>n v. n \<noteq> []),
       transformerTransform = (\<lambda>t text. if exampleWellFormed text then Some text else None) \<rparr>"

definition exampleTransformer :: "string transformer" where
  "exampleTransformer =
     \<lparr> stylesheet = ''<xsl:stylesheet/>'', parameters = Map.empty,
       outputProperties = Map.empty, callback = Some 0 \<rparr>"

lemmas example_defs =
  exampleHost_def exampleTransformer_def exampleFiles_def exampleWellFormed_def intToString_def
  exampleParameterName_def exampleSerialize_def exampleCall_def exampleLengthRounds_def
  serializerProperties_def

lemmas classifier_defs =
  isUndefined_def isNull_def isString_def isFunction_def isObject_def isArray_def isXML_def

section \<open>The encoder\<close>

text \<open>
  The tests of the anonymous function of \<open>value2xml\<close>, \<open>isArray\<close> and then \<open>isObject\<close>, and
  the equations of \<open>value2xml_callee\<close>: a value that is not an object is coerced; an
  object that is not an array for \<open>isArray\<close> goes through the loop over its properties.
\<close>

lemma value2xml_callee_dispatch:
  "(\<not> isObject v \<longrightarrow> value2xml_callee h v = Inr (ToString h (orEmpty h v))) \<and>
   (isObject v \<and> \<not> isArray h v \<longrightarrow>
      (\<exists>kvs. v = JObj kvs \<and>
         value2xml_callee h v =
           value2xml_keys h (map_of kvs ''hasOwnProperty'')
             (map (\<lambda>(key, x). (key, value2xml_callee h x)) kvs)))"
  by (cases v) (simp_all add: classifier_defs)

text \<open>
  An object whose own \<open>hasOwnProperty\<close> is not a function makes the encoder raise; an
  object whose \<open>constructor\<close> is \<open>Array\<close> and that has no \<open>length\<close> is encoded as an empty
  list.
\<close>

lemma value2xml_hasOwnProperty_raises:
  "value2xml exampleHost (JArr [JObj [(''hasOwnProperty'', JNum 1)]]) = Inl TypeError"
  by (simp add: value2xml_def classifier_defs example_defs)

lemma value2xml_constructor_Array:
  "value2xml exampleHost (JObj [(''constructor'', JFunc (arrayConstructor exampleHost))])
     = Inr ''<root></root>''"
  by (simp add: value2xml_def classifier_defs loopRounds_def)













text \<open>
  C3, as stated, fails: \<open>false\<close> is a primitive value other than undefined, null and
  the empty string, its string form is \<open>false\<close>, and the encoder emits nothing for it.
\<close>

theorem value2xml_false_counterexample:
  "value2xml exampleHost (JBool False) = Inr ''<root></root>'' \<and>
   ''<root>'' @ specPrimitiveForm exampleHost (JBool False) @ ''</root>'' = ''<root>false</root>''"
  by (simp add: value2xml_def specPrimitiveForm_def orEmpty_def classifier_defs)

text \<open>
  C3, amended. For every primitive value the encoder, at the top level and inside a
  list or an object, emits the value's string form when the value is truthy and the
  empty string otherwise; the values that are not truthy are undefined, null, the empty
  string, \<open>false\<close> and the numbers the host counts as false (zero and NaN).
\<close>

theorem value2xml_primitive:
  "isPrimitive v \<Longrightarrow>
     value2xml h v = Inr (''<root>'' @ (if truthy h v then ToString h v else []) @ ''</root>'') \<and>
     value2xml_callee h v = Inr (if truthy h v then ToString h v else []) \<and>
     (truthy h v \<longleftrightarrow>
        v \<noteq> JUndefined \<and> v \<noteq> JNull \<and> v \<noteq> JStr [] \<and> v \<noteq> JBool False \<and>
        (\<forall>n. v = JNum n \<longrightarrow> \<not> numIsFalsy h n))"
  by (cases v) (auto simp: isPrimitive_def value2xml_def orEmpty_def classifier_defs)

theorem value2xml_primitive_witness:
  "isPrimitive (JBool True :: (int, string) jsval) \<and>
   value2xml exampleHost (JBool True) = Inr ''<root>true</root>'' \<and>
   isPrimitive (JNum 0 :: (int, string) jsval) \<and>
   value2xml exampleHost (JNum 0) = Inr ''<root></root>'' \<and>
   value2xml exampleHost (JNum 42) = Inr ''<root>42</root>''"
proof -
  have p: "isPrimitive (JBool True :: (int, string) jsval)"
    "isPrimitive (JNum 0 :: (int, string) jsval)" "isPrimitive (JNum 42 :: (int, string) jsval)"
    by (simp_all add: isPrimitive_def classifier_defs)
  show ?thesis
    using p value2xml_primitive [OF p(1), of exampleHost]
      value2xml_primitive [OF p(2), of exampleHost] value2xml_primitive [OF p(3), of exampleHost]
    by (simp add: example_defs indexToString.simps digit_def)
qed

section \<open>transform and the constructor\<close>

text \<open>
  C4. When the engine raises, the value \<open>transform\<close> throws is the input document text
  alone: the operand of \<open>throw\<close> is a comma expression, so the text
  \<open>Problem with XML document:\<close> is dropped. For an empty input file the thrown value is
  the empty string.
\<close>

theorem transform_failure_thrown_value:
  "transform exampleHost exampleTransformer (JStr ''empty.xml'') = Inl (TransformFailed []) \<and>
   transform exampleHost exampleTransformer (JStr ''broken.xml'') = Inl (TransformFailed ''<a>'')"
  by (simp add: transform_def comma_def example_defs)

text \<open>
  C5. For every string whose file cannot be read, the constructor fails with
  \<open>File not found:\<close> followed by the string, and \<open>transform\<close> fails with
  \<open>File does not exist:\<close> followed by the string.
\<close>

theorem missing_file_errors:
  "readFile h path = None \<Longrightarrow>
     XSLTProcessor h (JStr path) = Inl (StylesheetNotFound (''File not found:'' @ path)) \<and>
     transform h t (JStr path) = Inl (InputNotFound (''File does not exist:'' @ path))"
  by (cases "path = []") (simp_all add: XSLTProcessor_def transform_def orEmpty_def)

theorem missing_file_errors_witness:
  "readFile exampleHost ''nofile.xml'' = None \<and>
   XSLTProcessor exampleHost (JStr ''nofile.xml'')
     = Inl (StylesheetNotFound ''File not found:nofile.xml'') \<and>
   transform exampleHost exampleTransformer (JStr ''nofile.xml'')
     = Inl (InputNotFound ''File does not exist:nofile.xml'')"
proof -
  have r: "readFile exampleHost ''nofile.xml'' = None"
    by (simp add: example_defs)
  show ?thesis
    using r missing_file_errors [OF r, of exampleTransformer] by simp
qed

text \<open>
  C6. Called without an argument, \<open>transform\<close> hands the engine the text
  \<open><root></root>\<close>, the encoding of no value: a document whose root element is empty.
\<close>

theorem transform_without_input:
  "value2xml h JUndefined = Inr ''<root></root>'' \<and>
   transform h t JUndefined =
     (case transformerTransform h t ''<root></root>'' of
        None \<Rightarrow> Inl (TransformFailed ''<root></root>'')
      | Some result \<Rightarrow> Inr result)"
  by (simp add: transform_def value2xml_def orEmpty_def comma_def classifier_defs
        split: option.splits)

section \<open>Output properties and the resolver\<close>

text \<open>
  C7. \<open>setOutputProperty\<close> applies \<open>String\<close> before \<open>||\<close>, so an absent value is stored
  as the text \<open>undefined\<close> and \<open>false\<close> as the text \<open>false\<close>, not as the empty string.
\<close>

theorem setOutputProperty_undefined:
  "setOutputProperty exampleHost exampleTransformer (JStr ''media-type'') JUndefined
     = Inr (exampleTransformer\<lparr>outputProperties := [''media-type'' \<mapsto> ''undefined'']\<rparr>) \<and>
   setOutputProperty exampleHost exampleTransformer (JStr ''media-type'') (JBool False)
     = Inr (exampleTransformer\<lparr>outputProperties := [''media-type'' \<mapsto> ''false'']\<rparr>)"
  by (simp add: setOutputProperty_def orEmpty_def example_defs)

text \<open>
  C9. For every argument that is neither null nor a function, \<open>setUriResolver\<close> leaves
  the transformer as it is, and \<open>getUriResolver\<close> answers after the call what it
  answered before.
\<close>

theorem setUriResolver_ignores_other_values:
  "\<not> isNull x \<Longrightarrow> \<not> isFunction x \<Longrightarrow>
     setUriResolver t x = t \<and>
     (getUriResolver (setUriResolver t x) :: ('n, 'x) jsval) = getUriResolver t"
  by (simp add: setUriResolver_def)

theorem setUriResolver_ignores_other_values_witness:
  "\<not> isNull (JStr ''resolver'' :: (int, string) jsval) \<and>
   \<not> isFunction (JStr ''resolver'' :: (int, string) jsval) \<and>
   setUriResolver exampleTransformer (JStr ''resolver'' :: (int, string) jsval)
     = exampleTransformer \<and>
   (getUriResolver (setUriResolver exampleTransformer (JStr ''resolver'' :: (int, string) jsval))
      :: (int, string) jsval) = JFunc 0"
proof -
  have a: "\<not> isNull (JStr ''resolver'' :: (int, string) jsval)"
    and b: "\<not> isFunction (JStr ''resolver'' :: (int, string) jsval)"
    by (simp_all add: classifier_defs)
  show ?thesis
    using a b setUriResolver_ignores_other_values [OF a b, of exampleTransformer]
    by (simp add: getUriResolver_def exampleTransformer_def)
qed

text \<open>
  C8, as stated, fails for a string: the resolver hands the engine a source made of the
  string as system identifier, reads no file and raises nothing, where the input
  dispatch of \<open>transform\<close> reads the file and fails when it cannot be read.
\<close>

theorem resolve_string_counterexample:
  "resolve exampleHost exampleTransformer ''input.xml'' ''base.xsl''
     = Inr (SystemIdSource ''input.xml'') \<and>
   specResolve exampleHost exampleTransformer ''input.xml'' ''base.xsl''
     = Some (ReaderSource ''<a/>'') \<and>
   resolve exampleHost exampleTransformer ''nofile.xml'' ''base.xsl''
     = Inr (SystemIdSource ''nofile.xml'') \<and>
   specResolve exampleHost exampleTransformer ''nofile.xml'' ''base.xsl'' = None \<and>
   transform exampleHost exampleTransformer (JStr ''nofile.xml'')
     = Inl (InputNotFound ''File does not exist:nofile.xml'')"
  by (simp add: resolve_def specResolve_def transform_def example_defs)

text \<open>
  C8, amended. With a callback installed, a resource request \<open>(href, base)\<close> calls it
  and dispatches on what it returns: a string becomes, unread, the system identifier
  of a source; any other value becomes a source over a text, the serialization of a
  markup value and the encoding of anything else, which is the text \<open>transform\<close> hands to
  the engine for the same value; an exception of the encoder leaves both.
\<close>

theorem resolve_dispatch:
  assumes "callback t = Some f" and "callFunction h f [JStr href, JStr base] = v"
  shows "(isString v \<longrightarrow> resolve h t href base = Inr (SystemIdSource (ToString h v))) \<and>
     (\<not> isString v \<longrightarrow>
        (case (case v of JXML x \<Rightarrow> Inr (toXMLString h x) | _ \<Rightarrow> value2xml h v) of
           Inr text \<Rightarrow>
             resolve h t href base = Inr (ReaderSource text) \<and>
             transform h t v =
               (case transformerTransform h t text of
                  None \<Rightarrow> Inl (TransformFailed text)
                | Some result \<Rightarrow> Inr result)
         | Inl err \<Rightarrow> resolve h t href base = Inl err \<and> transform h t v = Inl err))"
  using assms
  by (cases v)
    (simp_all add: resolve_def transform_def comma_def classifier_defs
       split: option.splits sum.splits)

theorem resolve_dispatch_witness:
  "resolve exampleHost (exampleTransformer\<lparr>callback := Some 0\<rparr>) ''input.xml'' ''base.xsl''
     = Inr (SystemIdSource ''input.xml'') \<and>
   resolve exampleHost (exampleTransformer\<lparr>callback := Some 1\<rparr>) ''input.xml'' ''base.xsl''
     = Inr (ReaderSource ''<a/>'') \<and>
   resolve exampleHost (exampleTransformer\<lparr>callback := Some 2\<rparr>) ''input.xml'' ''base.xsl''
     = Inr (ReaderSource ''<root><href>input.xml</href></root>'')"
proof -
  have cb: "callback (exampleTransformer\<lparr>callback := Some f\<rparr>) = Some f" for f
    by simp
  have f0: "callFunction exampleHost 0 [JStr ''input.xml'', JStr ''base.xsl'']
               = JStr ''input.xml''"
    and f1: "callFunction exampleHost 1 [JStr ''input.xml'', JStr ''base.xsl''] = JXML ''<a/>''"
    and f2: "callFunction exampleHost 2 [JStr ''input.xml'', JStr ''base.xsl'']
               = JObj [(''href'', JStr ''input.xml'')]"
    by (simp_all add: example_defs)
  have v2: "value2xml exampleHost (JObj [(''href'', JStr ''input.xml'')])
      = Inr ''<root><href>input.xml</href></root>''"
    by (simp add: value2xml_def classifier_defs orEmpty_def example_defs)
  show ?thesis
    using resolve_dispatch [OF cb f0] resolve_dispatch [OF cb f1] resolve_dispatch [OF cb f2]
    by (simp add: classifier_defs v2) (simp add: example_defs)
qed

section \<open>Parameters\<close>














end
